theory Spec2Isabelle
  imports Complex_Main "HOL-Library.Multiset"
begin

section \<open>Timeline analysis: timestamps after silence removal\<close>

text \<open>
  Source: \<^verbatim>\<open>src/core/video_analysis.py\<close> and the dataclasses of
  \<^verbatim>\<open>src/core/composite_builder.py\<close>.

  Times are Python floats in the source. They are modelled as exact rationals: every
  float is a rational, and the arithmetic of the model is the arithmetic of the source
  without rounding.
\<close>

text \<open>\<^verbatim>\<open>class SilenceCut\<close>: a segment to keep, fields \<^verbatim>\<open>start\<close> and \<^verbatim>\<open>end\<close>.\<close>

record SilenceCut =
  cut_start :: rat
  cut_end :: rat









subsection \<open>The loop computes the kept duration\<close>










subsection \<open>Claims about the timestamp adjustment\<close>





section \<open>Composite builder: zoom keyframes\<close>

text \<open>
  Source: \<^verbatim>\<open>src/core/composite_builder.py\<close>.
  \<^verbatim>\<open>class ZoomKeyframe\<close>: fields \<^verbatim>\<open>time\<close>, \<^verbatim>\<open>zoom_factor\<close>, \<^verbatim>\<open>center_x\<close>
  and \<^verbatim>\<open>center_y\<close> (the last two default to 0.5).
\<close>

record ZoomKeyframe =
  time :: rat
  zoom_factor :: rat
  center_x :: rat
  center_y :: rat

text \<open>
  The keyframe loop of \<^verbatim>\<open>zoom_function\<close> inside \<^verbatim>\<open>_apply_zoom_effect\<close>:
  \<^verbatim>\<open>
    for i, kf in enumerate(self.zoom_keyframes):
        if t < kf.time:
            if i == 0:
                zoom_factor = kf.zoom_factor
                center_x, center_y = kf.center_x, kf.center_y
            else:
                prev_kf = self.zoom_keyframes[i-1]
                progress = (t - prev_kf.time) / (kf.time - prev_kf.time)
                zoom_factor = prev_kf.zoom_factor + progress * (kf.zoom_factor - prev_kf.zoom_factor)
                center_x = prev_kf.center_x + progress * (kf.center_x - prev_kf.center_x)
                center_y = prev_kf.center_y + progress * (kf.center_y - prev_kf.center_y)
            break
  \<close>
  The result is \<open>Some (zoom_factor, center_x, center_y)\<close> at the \<^verbatim>\<open>break\<close> and \<open>None\<close>
  when the loop runs to its end (the \<^verbatim>\<open>else\<close> of the \<^verbatim>\<open>for\<close>). The first argument is
  the whole list \<^verbatim>\<open>self.zoom_keyframes\<close>, the third the index \<^verbatim>\<open>i\<close>, the fourth the
  keyframes still to visit. The divisor is never 0 where the loop divides (lemma
  \<open>zoom_enumerate_divisor\<close> below), so no \<^verbatim>\<open>ZeroDivisionError\<close> arises.
\<close>

fun zoom_enumerate ::
  "ZoomKeyframe list \<Rightarrow> rat \<Rightarrow> nat \<Rightarrow> ZoomKeyframe list \<Rightarrow> (rat \<times> rat \<times> rat) option" where
  "zoom_enumerate zoom_keyframes t i [] = None"
| "zoom_enumerate zoom_keyframes t i (kf # rest) =
     (if t < time kf then
        (if i = 0 then Some (zoom_factor kf, center_x kf, center_y kf)
         else
           (let prev_kf = zoom_keyframes ! (i - 1);
                progress = (t - time prev_kf) / (time kf - time prev_kf)
            in Some (zoom_factor prev_kf + progress * (zoom_factor kf - zoom_factor prev_kf),
                     center_x prev_kf + progress * (center_x kf - center_x prev_kf),
                     center_y prev_kf + progress * (center_y kf - center_y prev_kf))))
      else zoom_enumerate zoom_keyframes t (Suc i) rest)"

text \<open>
  The zoom factor and centre that \<^verbatim>\<open>zoom_function\<close> uses for the frame at time \<open>t\<close>:
  the defaults \<open>1.0\<close> and \<open>(0.5, 0.5)\<close>, overwritten by the loop, or by the last keyframe
  in the loop's \<^verbatim>\<open>else\<close> branch.
\<close>

definition zoom_at :: "ZoomKeyframe list \<Rightarrow> rat \<Rightarrow> rat \<times> rat \<times> rat" where
  "zoom_at zoom_keyframes t =
     (case zoom_enumerate zoom_keyframes t 0 zoom_keyframes of
        Some v \<Rightarrow> v
      | None \<Rightarrow>
          (if zoom_keyframes \<noteq> [] then
             (let last_kf = last zoom_keyframes
              in (zoom_factor last_kf, center_x last_kf, center_y last_kf))
           else (1, 1/2, 1/2)))"

text \<open>\<^verbatim>\<open>add_zoom_keyframes\<close> stores the keyframes sorted by time (Python's stable sort).\<close>

definition add_zoom_keyframes :: "ZoomKeyframe list \<Rightarrow> ZoomKeyframe list" where
  "add_zoom_keyframes keyframes = sort_key time keyframes"

text \<open>
  The specification's words: the values of one keyframe, and the linear interpolation at
  time \<open>t\<close> between a keyframe \<open>a\<close> and a later keyframe \<open>b\<close>.
\<close>

definition keyframe_values :: "ZoomKeyframe \<Rightarrow> rat \<times> rat \<times> rat" where
  "keyframe_values kf = (zoom_factor kf, center_x kf, center_y kf)"

definition lerp :: "rat \<Rightarrow> rat \<Rightarrow> rat \<Rightarrow> rat \<Rightarrow> rat \<Rightarrow> rat" where
  "lerp t0 v0 t1 v1 t = v0 + (t - t0) / (t1 - t0) * (v1 - v0)"

definition interpolate :: "ZoomKeyframe \<Rightarrow> ZoomKeyframe \<Rightarrow> rat \<Rightarrow> rat \<times> rat \<times> rat" where
  "interpolate a b t =
     (lerp (time a) (zoom_factor a) (time b) (zoom_factor b) t,
      lerp (time a) (center_x a) (time b) (center_x b) t,
      lerp (time a) (center_y a) (time b) (center_y b) t)"

text \<open>
  The keyframe immediately before \<open>t\<close> is the last one whose time is at most \<open>t\<close>; the
  keyframe immediately after \<open>t\<close> is the first one whose time is greater than \<open>t\<close>.
\<close>

definition keyframe_before :: "ZoomKeyframe list \<Rightarrow> rat \<Rightarrow> ZoomKeyframe" where
  "keyframe_before kfs t = last (filter (\<lambda>kf. time kf \<le> t) kfs)"

definition keyframe_after :: "ZoomKeyframe list \<Rightarrow> rat \<Rightarrow> ZoomKeyframe" where
  "keyframe_after kfs t = hd (filter (\<lambda>kf. t < time kf) kfs)"

subsection \<open>The loop finds the two neighbouring keyframes\<close>

lemma zoom_enumerate_scan:
  "zoom_enumerate (pre @ rest) t (length pre) rest =
     (case dropWhile (\<lambda>kf. \<not> t < time kf) rest of
        [] \<Rightarrow> None
      | kf # _ \<Rightarrow>
          Some (if pre @ takeWhile (\<lambda>kf. \<not> t < time kf) rest = [] then keyframe_values kf
                else interpolate (last (pre @ takeWhile (\<lambda>kf. \<not> t < time kf) rest)) kf t))"
proof (induction rest arbitrary: pre)
  case Nil
  show ?case by simp
next
  case (Cons kf rest)
  show ?case
  proof (cases "t < time kf")
    case True
    have "(pre @ kf # rest) ! (length pre - 1) = last pre" if "pre \<noteq> []"
      using that by (simp add: nth_append last_conv_nth)
    with True show ?thesis
      by (simp add: keyframe_values_def interpolate_def lerp_def Let_def)
  next
    case False
    then have tw: "takeWhile (\<lambda>kf. \<not> t < time kf) (kf # rest) = kf # takeWhile (\<lambda>kf. \<not> t < time kf) rest"
      and dw: "dropWhile (\<lambda>kf. \<not> t < time kf) (kf # rest) = dropWhile (\<lambda>kf. \<not> t < time kf) rest"
      by simp_all
    from False have step: "zoom_enumerate (pre @ kf # rest) t (length pre) (kf # rest) =
        zoom_enumerate ((pre @ [kf]) @ rest) t (length (pre @ [kf])) rest"
      by simp
    show ?thesis
      unfolding step tw dw Cons.IH [of "pre @ [kf]"]
      unfolding append_assoc append_Cons append_Nil
      by (rule refl)
  qed
qed

lemma zoom_enumerate_divisor:
  assumes "dropWhile (\<lambda>kf. \<not> t < time kf) kfs = kf # rest"
    and "takeWhile (\<lambda>kf. \<not> t < time kf) kfs \<noteq> []"
  shows "time (last (takeWhile (\<lambda>kf. \<not> t < time kf) kfs)) < time kf"
proof -
  from assms(2) have "last (takeWhile (\<lambda>kf. \<not> t < time kf) kfs) \<in> set (takeWhile (\<lambda>kf. \<not> t < time kf) kfs)"
    by (rule last_in_set)
  then have "\<not> t < time (last (takeWhile (\<lambda>kf. \<not> t < time kf) kfs))"
    by (rule set_takeWhileD [THEN conjunct2])
  moreover from assms(1) have "t < time kf"
    by (metis dropWhile_eq_Cons_conv)
  ultimately show ?thesis by simp
qed

lemma sorted_takeWhile_filter:
  "sorted (map time kfs) \<Longrightarrow>
     takeWhile (\<lambda>kf. \<not> t < time kf) kfs = filter (\<lambda>kf. time kf \<le> t) kfs"
proof (induction kfs)
  case Nil
  show ?case by simp
next
  case (Cons kf kfs)
  show ?case
  proof (cases "t < time kf")
    case True
    with Cons.prems have "\<forall>k \<in> set kfs. t < time k" by auto
    then have "filter (\<lambda>kf. time kf \<le> t) kfs = []" by (auto simp: filter_empty_conv)
    with True show ?thesis by simp
  next
    case False
    with Cons show ?thesis by (simp add: not_less)
  qed
qed

lemma sorted_dropWhile_filter:
  "sorted (map time kfs) \<Longrightarrow>
     dropWhile (\<lambda>kf. \<not> t < time kf) kfs = filter (\<lambda>kf. t < time kf) kfs"
proof (induction kfs)
  case Nil
  show ?case by simp
next
  case (Cons kf kfs)
  show ?case
  proof (cases "t < time kf")
    case True
    with Cons.prems have "\<forall>k \<in> set kfs. t < time k" by auto
    then have "filter (\<lambda>kf. t < time kf) kfs = kfs" by (auto simp: filter_id_conv)
    with True show ?thesis by simp
  next
    case False
    with Cons show ?thesis by simp
  qed
qed

lemma zoom_at_neighbours:
  assumes "sorted (map time kfs)" and "kfs \<noteq> []"
  shows "zoom_at kfs t =
     (if t < time (hd kfs) then keyframe_values (hd kfs)
      else if time (last kfs) \<le> t then keyframe_values (last kfs)
      else interpolate (keyframe_before kfs t) (keyframe_after kfs t) t)"
proof -
  let ?tw = "filter (\<lambda>kf. time kf \<le> t) kfs" and ?dw = "filter (\<lambda>kf. t < time kf) kfs"
  have scan: "zoom_enumerate kfs t 0 kfs =
      (case ?dw of [] \<Rightarrow> None
       | kf # _ \<Rightarrow> Some (if ?tw = [] then keyframe_values kf else interpolate (last ?tw) kf t))"
  proof -
    have "zoom_enumerate ([] @ kfs) t (length ([] :: ZoomKeyframe list)) kfs =
      (case dropWhile (\<lambda>kf. \<not> t < time kf) kfs of
        [] \<Rightarrow> None
      | kf # _ \<Rightarrow>
          Some (if [] @ takeWhile (\<lambda>kf. \<not> t < time kf) kfs = [] then keyframe_values kf
                else interpolate (last ([] @ takeWhile (\<lambda>kf. \<not> t < time kf) kfs)) kf t))"
      by (rule zoom_enumerate_scan)
    then show ?thesis
      unfolding sorted_takeWhile_filter [OF assms(1)] sorted_dropWhile_filter [OF assms(1)]
      by (simp split: list.split)
  qed
  from assms obtain k ks where kfs: "kfs = k # ks" by (cases kfs) auto
  show ?thesis
  proof (cases "t < time (hd kfs)")
    case True
    with assms(1) kfs have "\<forall>x \<in> set kfs. t < time x" by auto
    then have "?dw = kfs" and "?tw = []" by (auto simp: filter_id_conv filter_empty_conv)
    with True kfs scan show ?thesis by (simp add: zoom_at_def)
  next
    case False
    show ?thesis
    proof (cases "time (last kfs) \<le> t")
      case True
      have "time x \<le> time (last kfs)" if "x \<in> set kfs" for x
      proof -
        from that obtain i where i: "i < length kfs" "kfs ! i = x" by (auto simp: in_set_conv_nth)
        with assms(1) have "map time kfs ! i \<le> map time kfs ! (length kfs - 1)"
          by (intro sorted_nth_mono) auto
        with i assms(2) show ?thesis by (simp add: last_conv_nth)
      qed
      with True have "\<forall>x \<in> set kfs. \<not> t < time x" by fastforce
      then have "?dw = []" by (auto simp: filter_empty_conv)
      with True False assms(2) scan show ?thesis
        by (simp add: zoom_at_def keyframe_values_def Let_def)
    next
      case between: False
      from assms(2) have "last kfs \<in> set kfs" by simp
      with between have "?dw \<noteq> []"
        by (auto simp: filter_empty_conv not_le intro!: bexI [of _ "last kfs"])
      then obtain d ds where dw: "?dw = d # ds" by (cases ?dw) auto
      from False kfs have "?tw \<noteq> []" by (auto simp: filter_empty_conv)
      with dw False between scan show ?thesis
        by (simp add: zoom_at_def keyframe_before_def keyframe_after_def)
    qed
  qed
qed

lemma sorted_last_greatest:
  assumes "sorted (map time kfs)" and "x \<in> set kfs"
  shows "time x \<le> time (last kfs)"
proof -
  from assms(2) obtain i where i: "i < length kfs" "kfs ! i = x" by (auto simp: in_set_conv_nth)
  with assms(1) have "map time kfs ! i \<le> map time kfs ! (length kfs - 1)"
    by (intro sorted_nth_mono) auto
  moreover from assms(2) have "kfs \<noteq> []" by auto
  ultimately show ?thesis using i by (simp add: last_conv_nth)
qed

lemma sorted_hd_least:
  assumes "sorted (map time kfs)" and "x \<in> set kfs"
  shows "time (hd kfs) \<le> time x"
  using assms by (cases kfs) auto

text \<open>
  Between the first and the last keyframe the two neighbours exist and enclose \<open>t\<close>,
  and no keyframe lies strictly between them.
\<close>

lemma neighbours_enclose:
  assumes "sorted (map time kfs)" and "kfs \<noteq> []"
    and "time (hd kfs) \<le> t" and "t < time (last kfs)"
  shows "keyframe_before kfs t \<in> set kfs \<and> time (keyframe_before kfs t) \<le> t
     \<and> keyframe_after kfs t \<in> set kfs \<and> t < time (keyframe_after kfs t)
     \<and> (\<forall>kf \<in> set kfs. time kf \<le> time (keyframe_before kfs t) \<or> time (keyframe_after kfs t) \<le> time kf)"
proof -
  let ?lo = "filter (\<lambda>kf. time kf \<le> t) kfs" and ?hi = "filter (\<lambda>kf. t < time kf) kfs"
  from assms(2,3) have "hd kfs \<in> set ?lo" by simp
  then have lo: "?lo \<noteq> []" by (metis empty_iff empty_set)
  from assms(2,4) have "last kfs \<in> set ?hi" by simp
  then have hi: "?hi \<noteq> []" by (metis empty_iff empty_set)
  from lo have "last ?lo \<in> set ?lo" by (rule last_in_set)
  then have before: "keyframe_before kfs t \<in> set kfs" "time (keyframe_before kfs t) \<le> t"
    by (simp_all add: keyframe_before_def)
  from hi have "hd ?hi \<in> set ?hi" by (rule hd_in_set)
  then have after: "keyframe_after kfs t \<in> set kfs" "t < time (keyframe_after kfs t)"
    by (simp_all add: keyframe_after_def)
  have slo: "sorted (map time ?lo)" and shi: "sorted (map time ?hi)"
    using assms(1) by (simp_all add: sorted_filter)
  have "time kf \<le> time (keyframe_before kfs t) \<or> time (keyframe_after kfs t) \<le> time kf"
    if "kf \<in> set kfs" for kf
  proof (cases "time kf \<le> t")
    case True
    with that have "kf \<in> set ?lo" by simp
    from sorted_last_greatest [OF slo this] show ?thesis by (simp add: keyframe_before_def)
  next
    case False
    with that have "kf \<in> set ?hi" by simp
    from sorted_hd_least [OF shi this] show ?thesis by (simp add: keyframe_after_def)
  qed
  with before after show ?thesis by blast
qed

subsection \<open>Claim about the zoom interpolation\<close>

text \<open>
  Claim C3. For every non-empty list of zoom keyframes sorted ascending by time and every
  query time \<open>t\<close>, the zoom factor and centre used at \<open>t\<close> are the linear interpolation
  between the keyframe immediately before \<open>t\<close> and the keyframe immediately after \<open>t\<close>
  (two keyframes of the list that enclose \<open>t\<close>, with no keyframe strictly between them);
  before the first keyframe the first keyframe's values hold, and at or after the last
  keyframe the last keyframe's values hold. For the keyframes \<open>[(0,1.0),(3,1.2)]\<close> the
  zoom is \<open>1.1\<close> at \<open>t = 1.5\<close>, \<open>1.0\<close> at \<open>t = -1\<close> and \<open>1.2\<close> at \<open>t = 10\<close>.
\<close>

theorem zoom_interpolation_clamped:
  "(sorted (map time kfs) \<and> kfs \<noteq> [] \<longrightarrow>
      zoom_at kfs t =
        (if t < time (hd kfs) then keyframe_values (hd kfs)
         else if time (last kfs) \<le> t then keyframe_values (last kfs)
         else interpolate (keyframe_before kfs t) (keyframe_after kfs t) t))
   \<and> (sorted (map time kfs) \<and> kfs \<noteq> [] \<and> time (hd kfs) \<le> t \<and> t < time (last kfs) \<longrightarrow>
        keyframe_before kfs t \<in> set kfs \<and> time (keyframe_before kfs t) \<le> t
        \<and> keyframe_after kfs t \<in> set kfs \<and> t < time (keyframe_after kfs t)
        \<and> (\<forall>kf \<in> set kfs. time kf \<le> time (keyframe_before kfs t)
                                \<or> time (keyframe_after kfs t) \<le> time kf))
   \<and> fst (zoom_at [\<lparr>time = 0, zoom_factor = 1, center_x = 1/2, center_y = 1/2\<rparr>,
                   \<lparr>time = 3, zoom_factor = 12/10, center_x = 1/2, center_y = 1/2\<rparr>] (15/10)) = 11/10
   \<and> fst (zoom_at [\<lparr>time = 0, zoom_factor = 1, center_x = 1/2, center_y = 1/2\<rparr>,
                   \<lparr>time = 3, zoom_factor = 12/10, center_x = 1/2, center_y = 1/2\<rparr>] (- 1)) = 1
   \<and> fst (zoom_at [\<lparr>time = 0, zoom_factor = 1, center_x = 1/2, center_y = 1/2\<rparr>,
                   \<lparr>time = 3, zoom_factor = 12/10, center_x = 1/2, center_y = 1/2\<rparr>] 10) = 12/10"
  using zoom_at_neighbours [of kfs t] neighbours_enclose [of kfs t] by (simp add: zoom_at_def)

theorem zoom_interpolation_clamped_witness:
  "sorted (map time [\<lparr>time = 0, zoom_factor = 1, center_x = 1/2, center_y = 1/2\<rparr>,
                     \<lparr>time = 3, zoom_factor = 12/10, center_x = 1/4, center_y = 3/4\<rparr>])
   \<and> zoom_at [\<lparr>time = 0, zoom_factor = 1, center_x = 1/2, center_y = 1/2\<rparr>,
              \<lparr>time = 3, zoom_factor = 12/10, center_x = 1/4, center_y = 3/4\<rparr>] (15/10)
       = (11/10, 3/8, 5/8)"
  using zoom_interpolation_clamped
    [of "[\<lparr>time = 0, zoom_factor = 1, center_x = 1/2, center_y = 1/2\<rparr>,
          \<lparr>time = 3, zoom_factor = 12/10, center_x = 1/4, center_y = 3/4\<rparr>]" "15/10"]
  by (simp add: keyframe_before_def keyframe_after_def interpolate_def lerp_def)

section \<open>Caption timestamps\<close>

text \<open>
  Source: \<^verbatim>\<open>_format_time_srt\<close> in \<^verbatim>\<open>src/core/video_processing.py\<close>, whose result
  \<^verbatim>\<open>transcribe_video_whisper\<close> writes into the caption file for the start and the end
  of every segment.

  Python's \<^verbatim>\<open>int\<close> on a float truncates towards zero; \<^verbatim>\<open>round\<close> with one argument
  rounds to the nearest integer, a tie going to the even neighbour.
\<close>

definition py_int :: "rat \<Rightarrow> int" where
  "py_int x = (if 0 \<le> x then \<lfloor>x\<rfloor> else \<lceil>x\<rceil>)"

definition py_round :: "rat \<Rightarrow> int" where
  "py_round x =
     (let f = \<lfloor>x\<rfloor>; d = x - of_int f
      in if d < 1/2 then f else if 1/2 < d then f + 1 else if even f then f else f + 1)"

text \<open>
  The format specifications \<^verbatim>\<open>:02d\<close> and \<^verbatim>\<open>:03d\<close>: decimal digits, padded with zeros
  on the left up to the width, never truncated; a negative number takes one column for its
  sign.
\<close>

definition digit_char :: "nat \<Rightarrow> char" where
  "digit_char d = ''0123456789'' ! d"

fun str_nat :: "nat \<Rightarrow> string" where
  "str_nat n = (if n < 10 then [digit_char n] else str_nat (n div 10) @ [digit_char (n mod 10)])"

declare str_nat.simps [simp del]

definition zfill :: "nat \<Rightarrow> string \<Rightarrow> string" where
  "zfill width s = replicate (width - length s) CHR ''0'' @ s"

definition format_d :: "nat \<Rightarrow> int \<Rightarrow> string" where
  "format_d width n =
     (if 0 \<le> n then zfill width (str_nat (nat n))
      else CHR ''-'' # zfill (width - 1) (str_nat (nat (- n))))"

text \<open>
  \<^verbatim>\<open>
  def _format_time_srt(time_seconds: float) -> str:
      millisec = int(round((time_seconds - int(time_seconds)) * 1000))
      seconds = int(time_seconds)
      minutes, seconds = divmod(seconds, 60)
      hours, minutes = divmod(minutes, 60)
      return f"{hours:02d}:{minutes:02d}:{seconds:02d},{millisec:03d}"
  \<close>
  Python's \<^verbatim>\<open>divmod\<close> on integers is floor division and its remainder, as \<open>div\<close> and
  \<open>mod\<close> on \<open>int\<close> are.
\<close>

definition format_time_srt :: "rat \<Rightarrow> string" where
  "format_time_srt time_seconds =
     (let millisec = py_round ((time_seconds - of_int (py_int time_seconds)) * 1000);
          seconds = py_int time_seconds;
          minutes = seconds div 60;
          seconds = seconds mod 60;
          hours = minutes div 60;
          minutes = minutes mod 60
      in format_d 2 hours @ '':'' @ format_d 2 minutes @ '':'' @ format_d 2 seconds
           @ '','' @ format_d 3 millisec)"

text \<open>
  The timestamp grammar of the caption format, \<^verbatim>\<open>HH:MM:SS,mmm\<close>: twelve characters,
  digits everywhere but for the two colons and the comma.
\<close>

definition is_digit :: "char \<Rightarrow> bool" where
  "is_digit ch = (ch \<in> set ''0123456789'')"

definition srt_timestamp :: "string \<Rightarrow> bool" where
  "srt_timestamp s =
     (length s = 12 \<and> list_all is_digit (map (nth s) [0, 1, 3, 4, 6, 7, 9, 10, 11])
      \<and> s ! 2 = CHR '':'' \<and> s ! 5 = CHR '':'' \<and> s ! 8 = CHR '','')"

subsection \<open>Claim about the caption timestamps\<close>

text \<open>
  Claim C9 says that for every non-negative time the timestamp written has the shape
  \<^verbatim>\<open>HH:MM:SS,mmm\<close> with a three-digit millisecond field in 000 to 999. The function
  rounds the fractional part to milliseconds without carrying into the seconds: at
  \<open>1.9996\<close> seconds the fraction \<open>0.9996\<close> rounds to 1000 milliseconds and the result is
  \<^verbatim>\<open>00:00:01,1000\<close>, thirteen characters with a four-digit millisecond field, where the
  format asks for \<^verbatim>\<open>00:00:02,000\<close>. At \<open>3.5\<close> seconds the result is well-formed.
\<close>

theorem format_time_srt_millisecond_overflow:
  "format_time_srt (19996/10000) = ''00:00:01,1000''
   \<and> \<not> srt_timestamp (format_time_srt (19996/10000))
   \<and> format_time_srt (7/2) = ''00:00:03,500''
   \<and> srt_timestamp (format_time_srt (7/2))"
  by code_simp

section \<open>Overlap avoidance between B-roll and image placements\<close>

text \<open>
  Source: \<^verbatim>\<open>avoid_multimedia_overlaps\<close> in \<^verbatim>\<open>src/core/video_processing.py\<close>.

  A suggestion is a dictionary; the function reads and writes its \<^verbatim>\<open>start_time\<close> and
  passes the rest along. The field \<open>details\<close> stands for the other keys. The function
  updates the dictionaries of its arguments in place; the model returns the updated
  suggestions and takes the dictionaries of the two lists to be distinct objects.
\<close>

record suggestion =
  start_time :: rat
  details :: string

datatype media_type = Type_broll | Type_image

text \<open>
  The interval dictionaries built by the function, with the keys \<^verbatim>\<open>index\<close>,
  \<^verbatim>\<open>start\<close>, \<^verbatim>\<open>end\<close>, \<^verbatim>\<open>type\<close> and \<^verbatim>\<open>suggestion\<close>.
\<close>

record interval =
  iv_index :: nat
  iv_start :: rat
  iv_end :: rat
  iv_type :: media_type
  iv_suggestion :: suggestion

text \<open>
  The two conversion loops, one per kind:
  \<^verbatim>\<open>
    for i, suggestion in enumerate(broll_suggestions):
        start = float(suggestion['start_time'])
        duration = min(float(broll_clip_duration), video_duration - start)
        if duration > 0:
            broll_intervals.append({'index': i, 'start': start, 'end': start + duration,
                                    'type': 'broll', 'suggestion': suggestion})
  \<close>
\<close>

fun make_intervals :: "media_type \<Rightarrow> rat \<Rightarrow> rat \<Rightarrow> nat \<Rightarrow> suggestion list \<Rightarrow> interval list" where
  "make_intervals ty clip_duration video_duration i [] = []"
| "make_intervals ty clip_duration video_duration i (s # suggestions) =
     (let start = start_time s;
          duration = min clip_duration (video_duration - start)
      in (if duration > 0
          then [\<lparr>iv_index = i, iv_start = start, iv_end = start + duration, iv_type = ty,
                 iv_suggestion = s\<rparr>]
          else [])
         @ make_intervals ty clip_duration video_duration (Suc i) suggestions)"

definition min_gap :: rat where
  "min_gap = 1/2"

text \<open>
  The three assignments of a successful adjustment:
  \<^verbatim>\<open>
    interval['start'] = new_start
    interval['end'] = new_end
    interval['suggestion']['start_time'] = new_start
  \<close>
\<close>

definition moved :: "interval \<Rightarrow> rat \<Rightarrow> rat \<Rightarrow> interval" where
  "moved interval new_start new_end =
     interval\<lparr>iv_start := new_start, iv_end := new_end,
              iv_suggestion := (iv_suggestion interval)\<lparr>start_time := new_start\<rparr>\<rparr>"

text \<open>
  The check of option 2:
  \<^verbatim>\<open>
    creates_new_conflict = False
    for r in resolved_intervals:
        if r != resolved:
            if (new_start < r['end'] + min_gap and new_end + min_gap > r['start']):
                creates_new_conflict = True
                break
  \<close>
\<close>

definition creates_new_conflict :: "interval list \<Rightarrow> interval \<Rightarrow> rat \<Rightarrow> rat \<Rightarrow> bool" where
  "creates_new_conflict resolved_intervals resolved new_start new_end =
     list_ex (\<lambda>r. r \<noteq> resolved \<and> new_start < iv_end r + min_gap \<and> new_end + min_gap > iv_start r)
       resolved_intervals"

text \<open>
  The inner loop \<^verbatim>\<open>for resolved in resolved_intervals\<close>. Its state is the interval and
  the flag \<^verbatim>\<open>conflict_found\<close>. A successful adjustment clears the flag and leaves the loop
  (\<^verbatim>\<open>break\<close>); a conflict that neither option resolves leaves the flag set and the loop
  goes on to the next accepted interval.
\<close>

fun check_resolved ::
  "rat \<Rightarrow> interval list \<Rightarrow> interval \<Rightarrow> bool \<Rightarrow> interval list \<Rightarrow> interval \<times> bool" where
  "check_resolved video_duration resolved_intervals interval conflict_found [] =
     (interval, conflict_found)"
| "check_resolved video_duration resolved_intervals interval conflict_found (resolved # rest) =
     (if iv_start interval < iv_end resolved + min_gap
         \<and> iv_end interval + min_gap > iv_start resolved
      then
        (let new_start = iv_end resolved + min_gap;
             new_end = new_start + (iv_end interval - iv_start interval)
         in if new_end \<le> video_duration then (moved interval new_start new_end, False)
            else
              (let new_end = iv_start resolved - min_gap;
                   new_start = new_end - (iv_end interval - iv_start interval)
               in if new_start \<ge> 0
                     \<and> \<not> creates_new_conflict resolved_intervals resolved new_start new_end
                  then (moved interval new_start new_end, False)
                  else check_resolved video_duration resolved_intervals interval True rest))
      else check_resolved video_duration resolved_intervals interval conflict_found rest)"

text \<open>
  The outer loop \<^verbatim>\<open>for interval in all_intervals\<close>: the interval is appended to
  \<^verbatim>\<open>resolved_intervals\<close> when the flag is clear, and skipped otherwise.
\<close>

fun resolve_conflicts :: "rat \<Rightarrow> interval list \<Rightarrow> interval list \<Rightarrow> interval list" where
  "resolve_conflicts video_duration [] resolved_intervals = resolved_intervals"
| "resolve_conflicts video_duration (interval # all_intervals) resolved_intervals =
     (case check_resolved video_duration resolved_intervals interval False resolved_intervals of
        (interval', conflict_found) \<Rightarrow>
          if \<not> conflict_found
          then resolve_conflicts video_duration all_intervals (resolved_intervals @ [interval'])
          else resolve_conflicts video_duration all_intervals resolved_intervals)"

text \<open>
  \<^verbatim>\<open>all_intervals = sorted(broll_intervals + image_intervals, key=lambda x: x['start'])\<close>;
  Python's sort is stable, as \<open>sort_key\<close> is.
\<close>

definition all_intervals_of ::
  "suggestion list \<Rightarrow> suggestion list \<Rightarrow> rat \<Rightarrow> rat \<Rightarrow> rat \<Rightarrow> interval list" where
  "all_intervals_of broll_suggestions image_suggestions video_duration
       broll_clip_duration image_display_duration =
     (let broll_intervals =
            make_intervals Type_broll broll_clip_duration video_duration 0 broll_suggestions;
          image_intervals =
            make_intervals Type_image image_display_duration video_duration 0 image_suggestions
      in sort_key iv_start (broll_intervals @ image_intervals))"

definition resolved_intervals_of ::
  "suggestion list \<Rightarrow> suggestion list \<Rightarrow> rat \<Rightarrow> rat \<Rightarrow> rat \<Rightarrow> interval list" where
  "resolved_intervals_of broll_suggestions image_suggestions video_duration
       broll_clip_duration image_display_duration =
     resolve_conflicts video_duration
       (all_intervals_of broll_suggestions image_suggestions video_duration
          broll_clip_duration image_display_duration) []"

text \<open>The separation of the accepted intervals into the two result lists.\<close>

definition separate :: "interval list \<Rightarrow> suggestion list \<times> suggestion list" where
  "separate resolved_intervals =
     (map iv_suggestion (filter (\<lambda>interval. iv_type interval = Type_broll) resolved_intervals),
      map iv_suggestion (filter (\<lambda>interval. iv_type interval = Type_image) resolved_intervals))"

definition avoid_multimedia_overlaps ::
  "suggestion list \<Rightarrow> suggestion list \<Rightarrow> rat \<Rightarrow> rat \<Rightarrow> rat \<Rightarrow> suggestion list \<times> suggestion list" where
  "avoid_multimedia_overlaps broll_suggestions image_suggestions video_duration
       broll_clip_duration image_display_duration =
     separate (resolved_intervals_of broll_suggestions image_suggestions video_duration
                 broll_clip_duration image_display_duration)"

subsection \<open>The resolution policy in the specification's words\<close>








text \<open>A suggestion with a given start time, for the scenarios below.\<close>

definition sg :: "rat \<Rightarrow> string \<Rightarrow> suggestion" where
  "sg t d = \<lparr>start_time = t, details = d\<rparr>"

subsection \<open>The loops implement the amended policy\<close>














subsection \<open>Claims about the overlap avoidance\<close>




text \<open>
  Claim C6 says that a second pass over the result of a first pass changes nothing. The
  first placement (after the conflicting interval) is taken without checking the other
  accepted intervals, so the result of a pass can hold two intervals closer than the
  gap, and a second pass moves one of them. With B-roll suggestions at 10 and 11, an
  image suggestion at 12, 4 s each, and a video of 100 s, the first pass leaves the
  second B-roll and the image both at 14.5; the second pass moves the image to 19.
\<close>

theorem overlap_avoidance_second_pass_shifts:
  "avoid_multimedia_overlaps [sg 10 ''a'', sg 11 ''b''] [sg 12 ''c''] 100 4 4
     = ([sg 10 ''a'', sg (29/2) ''b''], [sg (29/2) ''c''])
   \<and> avoid_multimedia_overlaps [sg 10 ''a'', sg (29/2) ''b''] [sg (29/2) ''c''] 100 4 4
     = ([sg 10 ''a'', sg (29/2) ''b''], [sg 19 ''c''])"
  by code_simp

section \<open>Composite builder: rendering\<close>

text \<open>
  Source: \<^verbatim>\<open>class CompositeVideoBuilder\<close> in \<^verbatim>\<open>src/core/composite_builder.py\<close>.

  The builder drives a media library that is not part of the repository. A clip object
  is modelled by the expression of library calls that built it. A call that opens a media
  file returns a clip with a fresh handle; every other call wraps its argument. What the
  library would answer (whether a call raises, how long a clip is, whether it has an audio
  track, whether a file exists) is a parameter of the model, the record \<open>library\<close>.
\<close>

type_synonym path = string

type_synonym handle = nat

text \<open>\<^verbatim>\<open>class MediaOverlay\<close>.\<close>

record MediaOverlay =
  ov_start_time :: rat
  ov_duration :: rat
  ov_media_path :: path
  ov_media_type :: string
  ov_transition :: string
  ov_position :: "int \<times> int"
  ov_size :: "(int \<times> int) option"

text \<open>
  The library's clip methods that return a changed copy: \<^verbatim>\<open>subclip\<close>,
  \<^verbatim>\<open>set_duration\<close>, \<^verbatim>\<open>crossfadein\<close>, \<^verbatim>\<open>crossfadeout\<close>, \<^verbatim>\<open>resize\<close>,
  \<^verbatim>\<open>set_start\<close>, \<^verbatim>\<open>set_position\<close> and \<^verbatim>\<open>fl\<close> (here always with the builder's
  \<^verbatim>\<open>zoom_function\<close>, which reads the keyframes); for audio \<^verbatim>\<open>subclip\<close>,
  \<^verbatim>\<open>volumex\<close>, \<^verbatim>\<open>audio_fadein\<close> and \<^verbatim>\<open>audio_fadeout\<close>.
\<close>

datatype effect =
    Subclip rat rat
  | Set_duration rat
  | Crossfadein rat
  | Crossfadeout rat
  | Resize "int \<times> int"
  | Set_start rat
  | Set_position "int \<times> int"
  | Fl_zoom "ZoomKeyframe list"

datatype audio_effect =
    Audio_subclip rat rat
  | Volumex rat
  | Audio_fadein rat
  | Audio_fadeout rat

text \<open>
  Clip objects. \<open>Audio_of clip\<close> is the attribute \<^verbatim>\<open>clip.audio\<close>;
  \<open>Concatenate_videoclips_audio\<close> is \<^verbatim>\<open>concatenate_videoclips\<close> called on a list of
  audio clips, as \<^verbatim>\<open>_apply_background_music\<close> does.
\<close>

datatype clip =
    Video_file_clip handle path
  | Image_clip handle path
  | Fx clip effect
  | Concatenate_videoclips "clip list"
  | Composite_video_clip "clip list"
  | Set_audio clip audio
and audio =
    Audio_file_clip handle path
  | Audio_of clip
  | Audio_fx audio audio_effect
  | Concatenate_videoclips_audio "audio list"
  | Composite_audio_clip "audio list"

text \<open>
  The objects the builder registers in \<^verbatim>\<open>_loaded_clips\<close> are video clips and the
  music clip.
\<close>

datatype loaded = Loaded_clip clip | Loaded_audio audio

text \<open>
  The places where the builder calls the library, by render step. A call may raise.
  \<open>Overlay_transform i\<close> stands for the calls on overlay \<open>i\<close> between opening its file
  and registering the finished clip (\<^verbatim>\<open>set_duration\<close> or \<^verbatim>\<open>subclip\<close>, the
  crossfades, \<^verbatim>\<open>resize\<close>, \<^verbatim>\<open>set_start\<close>, \<^verbatim>\<open>set_position\<close>); \<open>Music_mix\<close> for the
  calls after opening the music file, all inside one \<^verbatim>\<open>try\<close>.
\<close>

datatype call =
    Open_base
  | Cut_subclip nat
  | Cut_concatenate
  | Zoom_fl
  | Overlay_open nat
  | Overlay_transform nat
  | Overlay_composite
  | Music_open
  | Music_mix
  | Intro_concatenate
  | Outro_concatenate
  | Write_videofile
  | Open_intro
  | Open_outro

datatype exn = Raised call | ZeroDivisionError

record library =
  raises :: "call \<Rightarrow> bool"
  path_exists :: "path \<Rightarrow> bool"
  clip_duration :: "clip \<Rightarrow> rat"
  audio_duration :: "audio \<Rightarrow> rat"
  has_audio :: "clip \<Rightarrow> bool"

text \<open>The fields of the builder object, as \<^verbatim>\<open>__init__\<close> declares them.\<close>

record CompositeVideoBuilder =
  input_video_path :: path
  base_clip :: "clip option"
  silence_cuts :: "SilenceCut list"
  zoom_keyframes :: "ZoomKeyframe list"
  media_overlays :: "MediaOverlay list"
  intro_clips :: "clip list"
  outro_clips :: "clip list"
  background_music :: "path option"
  music_volume :: rat
  speech_volume :: rat
  loaded_clips :: "loaded list"

text \<open>The render steps, for the record of which step ran on which clip.\<close>

datatype step = Step_silence_cuts | Step_zoom | Step_overlays | Step_music | Step_intro | Step_outro

text \<open>
  The world outside the builder: the next fresh handle, the handles opened and closed so
  far, the files written by \<^verbatim>\<open>write_videofile\<close>, and for each render step that ran the
  clip it took and the clip it returned.
\<close>

record world =
  next_handle :: handle
  opened :: "handle list"
  closed :: "handle list"
  written :: "(clip \<times> path) list"
  applied :: "(step \<times> clip \<times> clip) list"

type_synonym 'a action = "CompositeVideoBuilder \<times> world \<Rightarrow> (exn + 'a) \<times> CompositeVideoBuilder \<times> world"

definition return :: "'a \<Rightarrow> 'a action" where
  "return x = (\<lambda>s. (Inr x, s))"

definition raise :: "exn \<Rightarrow> 'a action" where
  "raise e = (\<lambda>s. (Inl e, s))"

definition and_then :: "'a action \<Rightarrow> ('a \<Rightarrow> 'b action) \<Rightarrow> 'b action" where
  "and_then m f = (\<lambda>s. case m s of (Inl e, s') \<Rightarrow> (Inl e, s') | (Inr x, s') \<Rightarrow> f x s')"

text \<open>\<^verbatim>\<open>try: m  except Exception: h\<close> and \<^verbatim>\<open>try: m  finally: c\<close>.\<close>

definition try_except :: "'a action \<Rightarrow> 'a action \<Rightarrow> 'a action" where
  "try_except m h = (\<lambda>s. case m s of (Inl e, s') \<Rightarrow> h s' | (Inr x, s') \<Rightarrow> (Inr x, s'))"

definition try_finally :: "'a action \<Rightarrow> unit action \<Rightarrow> 'a action" where
  "try_finally m c =
     (\<lambda>s. case m s of
        (r, s') \<Rightarrow> (case c s' of (Inl e, s'') \<Rightarrow> (Inl e, s'') | (Inr _, s'') \<Rightarrow> (r, s'')))"

text \<open>A library call that computes its result without opening a file.\<close>

definition lib_call :: "library \<Rightarrow> call \<Rightarrow> 'a \<Rightarrow> 'a action" where
  "lib_call lib c result = (if raises lib c then raise (Raised c) else return result)"

text \<open>
  The constructors \<^verbatim>\<open>VideoFileClip(path)\<close>, \<^verbatim>\<open>ImageClip(path)\<close> and
  \<^verbatim>\<open>AudioFileClip(path)\<close>: unless the call raises, a fresh handle is opened.
\<close>

definition open_handle :: "library \<Rightarrow> call \<Rightarrow> handle action" where
  "open_handle lib c =
     (\<lambda>(b, w). if raises lib c then (Inl (Raised c), b, w)
        else (Inr (next_handle w), b,
              w\<lparr>next_handle := Suc (next_handle w), opened := opened w @ [next_handle w]\<rparr>))"

definition VideoFileClip :: "library \<Rightarrow> call \<Rightarrow> path \<Rightarrow> clip action" where
  "VideoFileClip lib c p = and_then (open_handle lib c) (\<lambda>h. return (Video_file_clip h p))"

definition ImageClip :: "library \<Rightarrow> call \<Rightarrow> path \<Rightarrow> clip action" where
  "ImageClip lib c p = and_then (open_handle lib c) (\<lambda>h. return (Image_clip h p))"

definition AudioFileClip :: "library \<Rightarrow> call \<Rightarrow> path \<Rightarrow> audio action" where
  "AudioFileClip lib c p = and_then (open_handle lib c) (\<lambda>h. return (Audio_file_clip h p))"

text \<open>\<^verbatim>\<open>self._loaded_clips.append(clip)\<close>.\<close>

definition register :: "loaded \<Rightarrow> unit action" where
  "register l = (\<lambda>(b, w). (Inr (), b\<lparr>loaded_clips := loaded_clips b @ [l]\<rparr>, w))"

definition get_builder :: "CompositeVideoBuilder action" where
  "get_builder = (\<lambda>(b, w). (Inr b, b, w))"

subsection \<open>Queueing effects\<close>

text \<open>\<^verbatim>\<open>__init__\<close> and the \<^verbatim>\<open>add_...\<close> methods.\<close>

definition init :: "path \<Rightarrow> CompositeVideoBuilder" where
  "init p =
     \<lparr>input_video_path = p, base_clip = None, silence_cuts = [], zoom_keyframes = [],
      media_overlays = [], intro_clips = [], outro_clips = [], background_music = None,
      music_volume = 3/10, speech_volume = 1, loaded_clips = []\<rparr>"

definition add_silence_cuts :: "SilenceCut list \<Rightarrow> CompositeVideoBuilder \<Rightarrow> CompositeVideoBuilder" where
  "add_silence_cuts cuts b = b\<lparr>silence_cuts := cuts\<rparr>"

definition add_zoom_keyframes_to :: "ZoomKeyframe list \<Rightarrow> CompositeVideoBuilder \<Rightarrow> CompositeVideoBuilder" where
  "add_zoom_keyframes_to keyframes b = b\<lparr>zoom_keyframes := add_zoom_keyframes keyframes\<rparr>"

definition add_media_overlays :: "MediaOverlay list \<Rightarrow> CompositeVideoBuilder \<Rightarrow> CompositeVideoBuilder" where
  "add_media_overlays overlays b = b\<lparr>media_overlays := overlays\<rparr>"

definition add_music :: "path \<Rightarrow> rat \<Rightarrow> rat \<Rightarrow> CompositeVideoBuilder \<Rightarrow> CompositeVideoBuilder" where
  "add_music music_path volume speech b =
     b\<lparr>background_music := Some music_path, music_volume := volume, speech_volume := speech\<rparr>"

definition add_intro :: "library \<Rightarrow> path \<Rightarrow> unit action" where
  "add_intro lib intro_clip_path =
     and_then (VideoFileClip lib Open_intro intro_clip_path) (\<lambda>intro_clip.
       (\<lambda>(b, w). (Inr (), b\<lparr>intro_clips := intro_clips b @ [intro_clip],
                               loaded_clips := loaded_clips b @ [Loaded_clip intro_clip]\<rparr>, w)))"

definition add_outro :: "library \<Rightarrow> path \<Rightarrow> unit action" where
  "add_outro lib outro_clip_path =
     and_then (VideoFileClip lib Open_outro outro_clip_path) (\<lambda>outro_clip.
       (\<lambda>(b, w). (Inr (), b\<lparr>outro_clips := outro_clips b @ [outro_clip],
                               loaded_clips := loaded_clips b @ [Loaded_clip outro_clip]\<rparr>, w)))"

subsection \<open>The render steps\<close>

text \<open>
  \<^verbatim>\<open>_apply_silence_cuts\<close>. The loop over the cuts: a \<^verbatim>\<open>subclip\<close> that raises is
  logged and left out.
\<close>

fun cut_subclips :: "library \<Rightarrow> clip \<Rightarrow> nat \<Rightarrow> SilenceCut list \<Rightarrow> clip list" where
  "cut_subclips lib clip i [] = []"
| "cut_subclips lib clip i (c # cuts) =
     (if raises lib (Cut_subclip i) then [] else [Fx clip (Subclip (cut_start c) (cut_end c))])
     @ cut_subclips lib clip (Suc i) cuts"

definition apply_silence_cuts :: "library \<Rightarrow> clip \<Rightarrow> clip action" where
  "apply_silence_cuts lib clip =
     and_then get_builder (\<lambda>self.
       if silence_cuts self = [] then return clip
       else
         (let subclips = cut_subclips lib clip 0 (silence_cuts self)
          in if subclips = [] then return clip
             else lib_call lib Cut_concatenate (Concatenate_videoclips subclips)))"

text \<open>\<^verbatim>\<open>_apply_zoom_effect\<close>: \<^verbatim>\<open>clip.fl(zoom_function)\<close>.\<close>

definition apply_zoom_effect :: "library \<Rightarrow> clip \<Rightarrow> clip action" where
  "apply_zoom_effect lib clip =
     and_then get_builder (\<lambda>self.
       if zoom_keyframes self = [] then return clip
       else lib_call lib Zoom_fl (Fx clip (Fl_zoom (zoom_keyframes self))))"

text \<open>
  \<^verbatim>\<open>_apply_media_overlays\<close>. The body of the \<^verbatim>\<open>try\<close> for one overlay: open the media
  file, transform the clip, and only then append it to \<^verbatim>\<open>overlay_clips\<close> and to
  \<^verbatim>\<open>self._loaded_clips\<close>.
\<close>

definition overlay_chain :: "MediaOverlay \<Rightarrow> clip \<Rightarrow> clip" where
  "overlay_chain overlay opened_clip =
     (let media_clip =
            (if ov_media_type overlay = ''image'' then Fx opened_clip (Set_duration (ov_duration overlay))
             else Fx opened_clip (Subclip 0 (ov_duration overlay)));
          media_clip =
            (if ov_transition overlay = ''fade''
             then Fx (Fx media_clip (Crossfadein (1/2))) (Crossfadeout (1/2))
             else media_clip);
          media_clip =
            (case ov_size overlay of Some sz \<Rightarrow> Fx media_clip (Resize sz) | None \<Rightarrow> media_clip)
      in Fx (Fx media_clip (Set_start (ov_start_time overlay))) (Set_position (ov_position overlay)))"

definition load_overlay :: "library \<Rightarrow> nat \<Rightarrow> MediaOverlay \<Rightarrow> clip action" where
  "load_overlay lib i overlay =
     and_then
       (if ov_media_type overlay = ''image''
        then ImageClip lib (Overlay_open i) (ov_media_path overlay)
        else VideoFileClip lib (Overlay_open i) (ov_media_path overlay)) (\<lambda>opened_clip.
     and_then (lib_call lib (Overlay_transform i) (overlay_chain overlay opened_clip)) (\<lambda>media_clip.
     and_then (register (Loaded_clip media_clip)) (\<lambda>_.
     return media_clip)))"

text \<open>
  The loop over the overlays; \<^verbatim>\<open>except Exception\<close> logs the failure and goes on to the
  next overlay.
\<close>

fun load_overlays :: "library \<Rightarrow> nat \<Rightarrow> MediaOverlay list \<Rightarrow> clip list \<Rightarrow> clip list action" where
  "load_overlays lib i [] overlay_clips = return overlay_clips"
| "load_overlays lib i (overlay # overlays) overlay_clips =
     and_then
       (try_except
          (and_then (load_overlay lib i overlay) (\<lambda>media_clip. return (overlay_clips @ [media_clip])))
          (return overlay_clips))
       (load_overlays lib (Suc i) overlays)"

definition apply_media_overlays :: "library \<Rightarrow> clip \<Rightarrow> clip action" where
  "apply_media_overlays lib clip =
     and_then get_builder (\<lambda>self.
       if media_overlays self = [] then return clip
       else
         and_then (load_overlays lib 0 (media_overlays self) []) (\<lambda>overlay_clips.
           if overlay_clips \<noteq> []
           then lib_call lib Overlay_composite (Composite_video_clip (clip # overlay_clips))
           else return clip))"

text \<open>
  \<^verbatim>\<open>_apply_background_music\<close>. Inside the \<^verbatim>\<open>try\<close>: load the music, register it, fit it
  to the clip's duration, scale it, mix it with the clip's own audio if there is any, and
  set the result as the clip's audio. The division \<^verbatim>\<open>clip.duration / music.duration\<close>
  raises \<^verbatim>\<open>ZeroDivisionError\<close> for a music file of duration 0. Any exception is logged and
  the clip is returned as it came.
\<close>

definition fit_music :: "library \<Rightarrow> audio \<Rightarrow> clip \<Rightarrow> audio action" where
  "fit_music lib music clip =
     (if audio_duration lib music < clip_duration lib clip then
        (if audio_duration lib music = 0 then raise ZeroDivisionError
         else
           (let loops = nat \<lceil>clip_duration lib clip / audio_duration lib music\<rceil>
            in lib_call lib Music_mix
                 (Audio_fx (Concatenate_videoclips_audio (replicate loops music))
                    (Audio_subclip 0 (clip_duration lib clip)))))
      else lib_call lib Music_mix (Audio_fx music (Audio_subclip 0 (clip_duration lib clip))))"

definition mix_music :: "library \<Rightarrow> CompositeVideoBuilder \<Rightarrow> audio \<Rightarrow> clip \<Rightarrow> clip" where
  "mix_music lib self fitted clip =
     (let music = Audio_fx fitted (Volumex (music_volume self));
          mixed_audio =
            (if has_audio lib clip
             then (let original_audio = Audio_fx (Audio_of clip) (Volumex (speech_volume self))
                   in Composite_audio_clip [original_audio, music])
             else music)
      in Set_audio clip mixed_audio)"

definition apply_background_music :: "library \<Rightarrow> clip \<Rightarrow> clip action" where
  "apply_background_music lib clip =
     and_then get_builder (\<lambda>self.
       case background_music self of
         None \<Rightarrow> return clip
       | Some music_path \<Rightarrow>
           if \<not> path_exists lib music_path then return clip
           else
             try_except
               (and_then (AudioFileClip lib Music_open music_path) (\<lambda>music.
                and_then (register (Loaded_audio music)) (\<lambda>_.
                and_then (fit_music lib music clip) (\<lambda>fitted.
                return (mix_music lib self fitted clip)))))
               (return clip))"

subsection \<open>Render and cleanup\<close>

text \<open>
  \<^verbatim>\<open>clip.close()\<close> releases the file handles under the clip; a derived clip shares the
  reader of the clip it was made from. \<^verbatim>\<open>_cleanup\<close> closes every registered clip,
  ignoring exceptions, and clears the list.
\<close>

primrec clip_handles :: "clip \<Rightarrow> handle list"
  and audio_handles :: "audio \<Rightarrow> handle list" where
  "clip_handles (Video_file_clip h p) = [h]"
| "clip_handles (Image_clip h p) = [h]"
| "clip_handles (Fx c e) = clip_handles c"
| "clip_handles (Concatenate_videoclips cs) = concat (map clip_handles cs)"
| "clip_handles (Composite_video_clip cs) = concat (map clip_handles cs)"
| "clip_handles (Set_audio c a) = clip_handles c @ audio_handles a"
| "audio_handles (Audio_file_clip h p) = [h]"
| "audio_handles (Audio_of c) = clip_handles c"
| "audio_handles (Audio_fx a e) = audio_handles a"
| "audio_handles (Concatenate_videoclips_audio as) = concat (map audio_handles as)"
| "audio_handles (Composite_audio_clip as) = concat (map audio_handles as)"

fun loaded_handles :: "loaded \<Rightarrow> handle list" where
  "loaded_handles (Loaded_clip c) = clip_handles c"
| "loaded_handles (Loaded_audio a) = audio_handles a"

definition cleanup :: "unit action" where
  "cleanup =
     (\<lambda>(b, w). (Inr (), b\<lparr>loaded_clips := []\<rparr>,
                 w\<lparr>closed := closed w @ concat (map loaded_handles (loaded_clips b))\<rparr>))"

text \<open>
  One numbered step of \<^verbatim>\<open>render\<close>, \<^verbatim>\<open>if self.queue: clip = step(clip)\<close>. When the step
  has run, the clip it took and the clip it returned are recorded.
\<close>

definition run_step :: "step \<Rightarrow> bool \<Rightarrow> (clip \<Rightarrow> clip action) \<Rightarrow> clip \<Rightarrow> clip action" where
  "run_step name queued f clip =
     (if queued then
        and_then (f clip) (\<lambda>out.
          (\<lambda>(b, w). (Inr out, b, w\<lparr>applied := applied w @ [(name, clip, out)]\<rparr>)))
      else return clip)"

definition write_videofile :: "library \<Rightarrow> clip \<Rightarrow> path \<Rightarrow> unit action" where
  "write_videofile lib clip output_path =
     (\<lambda>(b, w). if raises lib Write_videofile then (Inl (Raised Write_videofile), b, w)
        else (Inr (), b, w\<lparr>written := written w @ [(clip, output_path)]\<rparr>))"

definition render_body :: "library \<Rightarrow> path \<Rightarrow> path action" where
  "render_body lib output_path =
     and_then get_builder (\<lambda>self.
     and_then (VideoFileClip lib Open_base (input_video_path self)) (\<lambda>base.
     and_then (\<lambda>(b, w). (Inr (), b\<lparr>base_clip := Some base,
                                      loaded_clips := loaded_clips b @ [Loaded_clip base]\<rparr>, w)) (\<lambda>_.
     and_then (run_step Step_silence_cuts (silence_cuts self \<noteq> []) (apply_silence_cuts lib) base) (\<lambda>clip.
     and_then (run_step Step_zoom (zoom_keyframes self \<noteq> []) (apply_zoom_effect lib) clip) (\<lambda>clip.
     and_then (run_step Step_overlays (media_overlays self \<noteq> []) (apply_media_overlays lib) clip) (\<lambda>clip.
     and_then (run_step Step_music (background_music self \<noteq> None) (apply_background_music lib) clip) (\<lambda>clip.
     and_then (run_step Step_intro (intro_clips self \<noteq> [])
                 (\<lambda>clip. lib_call lib Intro_concatenate (Concatenate_videoclips (intro_clips self @ [clip]))) clip) (\<lambda>clip.
     and_then (run_step Step_outro (outro_clips self \<noteq> [])
                 (\<lambda>clip. lib_call lib Outro_concatenate (Concatenate_videoclips ([clip] @ outro_clips self))) clip) (\<lambda>clip.
     and_then (write_videofile lib clip output_path) (\<lambda>_.
     return output_path))))))))))"

definition render :: "library \<Rightarrow> path \<Rightarrow> path action" where
  "render lib output_path = try_finally (render_body lib output_path) cleanup"

text \<open>The handles that are open: opened and not closed.\<close>

definition leaked :: "world \<Rightarrow> handle list" where
  "leaked w = filter (\<lambda>h. h \<notin> set (closed w)) (opened w)"

definition fresh_world :: world where
  "fresh_world = \<lparr>next_handle = 0, opened = [], closed = [], written = [], applied = []\<rparr>"


subsection \<open>The order of the render steps\<close>


fun queued :: "CompositeVideoBuilder \<Rightarrow> step \<Rightarrow> bool" where
  "queued self Step_silence_cuts = (silence_cuts self \<noteq> [])"
| "queued self Step_zoom = (zoom_keyframes self \<noteq> [])"
| "queued self Step_overlays = (media_overlays self \<noteq> [])"
| "queued self Step_music = (background_music self \<noteq> None)"
| "queued self Step_intro = (intro_clips self \<noteq> [])"
| "queued self Step_outro = (outro_clips self \<noteq> [])"









lemma and_then_cases:
  assumes "and_then m f s = (r, s'')"
  obtains (raised) e where "m s = (Inl e, s'')" "r = Inl e"
        | (returned) x s' where "m s = (Inr x, s')" "f x s' = (r, s'')"
  using assms by (auto simp: and_then_def split: prod.splits sum.splits)


















text \<open>The six guarded steps of \<^verbatim>\<open>render\<close> as one loop over a list of steps.\<close>

fun pipeline :: "(step \<times> (clip \<Rightarrow> clip action)) list \<Rightarrow> CompositeVideoBuilder \<Rightarrow> clip \<Rightarrow> clip action" where
  "pipeline [] self c = return c"
| "pipeline ((name, f) # rest) self c =
     and_then (run_step name (queued self name) f c) (pipeline rest self)"

definition step_functions :: "library \<Rightarrow> CompositeVideoBuilder \<Rightarrow> (step \<times> (clip \<Rightarrow> clip action)) list" where
  "step_functions lib self =
     [(Step_silence_cuts, apply_silence_cuts lib),
      (Step_zoom, apply_zoom_effect lib),
      (Step_overlays, apply_media_overlays lib),
      (Step_music, apply_background_music lib),
      (Step_intro, \<lambda>clip. lib_call lib Intro_concatenate (Concatenate_videoclips (intro_clips self @ [clip]))),
      (Step_outro, \<lambda>clip. lib_call lib Outro_concatenate (Concatenate_videoclips ([clip] @ outro_clips self)))]"

lemma and_then_assoc: "and_then (and_then m f) g = and_then m (\<lambda>x. and_then (f x) g)"
  by (auto simp: and_then_def fun_eq_iff split: prod.splits sum.splits)

lemma return_and_then: "and_then (return x) f = f x"
  by (simp add: and_then_def return_def fun_eq_iff)

lemma render_body_pipeline:
  "render_body lib output_path =
     and_then get_builder (\<lambda>self.
     and_then (VideoFileClip lib Open_base (input_video_path self)) (\<lambda>base.
     and_then (\<lambda>(b, w). (Inr (), b\<lparr>base_clip := Some base,
                                      loaded_clips := loaded_clips b @ [Loaded_clip base]\<rparr>, w)) (\<lambda>_.
     and_then (pipeline (step_functions lib self) self base) (\<lambda>clip.
     and_then (write_videofile lib clip output_path) (\<lambda>_.
     return output_path)))))"
  by (simp add: render_body_def step_functions_def and_then_assoc return_and_then)

lemma run_step_cases:
  assumes "run_step name q f c s = (r, s')"
  obtains (skipped) "\<not> q" "r = Inr c" "s' = s"
    | (failed) e where "q" "f c s = (Inl e, s')" "r = Inl e"
    | (ran) out s0 where "q" "f c s = (Inr out, s0)" "r = Inr out"
        "s' = (fst s0, (snd s0)\<lparr>applied := applied (snd s0) @ [(name, c, out)]\<rparr>)"
  using assms
  by (cases q) (auto simp: run_step_def return_def and_then_def split: prod.splits sum.splits)














subsection \<open>Claim about the order of the render steps\<close>







subsection \<open>Claim about the background music\<close>


subsection \<open>Where no handle leaks\<close>

text \<open>
  A state is tracked when every handle that is open is the handle of a registered clip.
  Every part of \<^verbatim>\<open>render\<close> keeps a tracked state tracked, but for the loading of an
  overlay whose transformation raises.
\<close>

definition tracked :: "CompositeVideoBuilder \<times> world \<Rightarrow> bool" where
  "tracked s =
     (set (opened (snd s)) \<subseteq>
        set (closed (snd s)) \<union> set (concat (map loaded_handles (loaded_clips (fst s)))))"

definition keeps_tracked :: "'a action \<Rightarrow> bool" where
  "keeps_tracked m = (\<forall>s r s'. tracked s \<longrightarrow> m s = (r, s') \<longrightarrow> tracked s')"

lemma keeps_trackedD: "keeps_tracked m \<Longrightarrow> tracked s \<Longrightarrow> m s = (r, s') \<Longrightarrow> tracked s'"
  unfolding keeps_tracked_def by blast

lemma keeps_tracked_return: "keeps_tracked (return x)"
  by (simp add: keeps_tracked_def return_def)

lemma keeps_tracked_raise: "keeps_tracked (raise e)"
  by (simp add: keeps_tracked_def raise_def)

lemma keeps_tracked_lib_call: "keeps_tracked (lib_call lib c x)"
  by (simp add: lib_call_def keeps_tracked_return keeps_tracked_raise)

lemma keeps_tracked_and_then:
  assumes "keeps_tracked m" and "\<And>x. keeps_tracked (f x)"
  shows "keeps_tracked (and_then m f)"
  unfolding keeps_tracked_def
proof (intro allI impI)
  fix s r s'
  assume t: "tracked s" and run: "and_then m f s = (r, s')"
  from run show "tracked s'"
  proof (cases rule: and_then_cases)
    case (raised e)
    with assms(1) t show ?thesis by (auto dest: keeps_trackedD)
  next
    case (returned x s1)
    from keeps_trackedD [OF assms(1) t returned(1)] have "tracked s1" .
    from keeps_trackedD [OF assms(2) this returned(2)] show ?thesis .
  qed
qed

lemma keeps_tracked_try_except:
  assumes "keeps_tracked m" and "keeps_tracked h"
  shows "keeps_tracked (try_except m h)"
  unfolding keeps_tracked_def
proof (intro allI impI)
  fix s r s'
  assume t: "tracked s" and run: "try_except m h s = (r, s')"
  obtain r1 s1 where m: "m s = (r1, s1)" by (cases "m s")
  from keeps_trackedD [OF assms(1) t m] have t1: "tracked s1" .
  from run m t1 assms(2) show "tracked s'"
    by (cases r1) (auto simp: try_except_def dest: keeps_trackedD)
qed

lemma keeps_tracked_get_builder: "keeps_tracked get_builder"
  by (auto simp: keeps_tracked_def get_builder_def)

lemma keeps_tracked_run_step:
  assumes "keeps_tracked (f c)"
  shows "keeps_tracked (run_step name q f c)"
  unfolding keeps_tracked_def
proof (intro allI impI)
  fix s r s'
  assume t: "tracked s" and run: "run_step name q f c s = (r, s')"
  from run show "tracked s'"
  proof (cases rule: run_step_cases)
    case skipped
    with t show ?thesis by simp
  next
    case (failed e)
    with assms t show ?thesis by (auto dest: keeps_trackedD)
  next
    case (ran out s0)
    from keeps_trackedD [OF assms t ran(2)] ran(4) show ?thesis
      by (simp add: tracked_def)
  qed
qed

text \<open>Opening a file and registering the clip at once keeps the state tracked.\<close>

lemma open_and_register:
  assumes "tracked (b, w)" and "set (loaded_handles l) = {next_handle w}"
  shows "tracked (b\<lparr>loaded_clips := loaded_clips b @ [l]\<rparr>,
                  w\<lparr>next_handle := Suc (next_handle w), opened := opened w @ [next_handle w]\<rparr>)"
  using assms by (auto simp: tracked_def)

lemma clip_handles_overlay_chain: "clip_handles (overlay_chain overlay c) = clip_handles c"
  by (simp add: overlay_chain_def Let_def split: option.splits)

lemma keeps_tracked_load_overlay:
  assumes "\<not> raises lib (Overlay_transform i)"
  shows "keeps_tracked (load_overlay lib i overlay)"
  unfolding keeps_tracked_def
proof (intro allI impI)
  fix s r s'
  assume t: "tracked s" and run: "load_overlay lib i overlay s = (r, s')"
  obtain b w where s: "s = (b, w)" by (cases s)
  show "tracked s'"
  proof (cases "raises lib (Overlay_open i)")
    case True
    with run s t show ?thesis
      by (auto simp: load_overlay_def ImageClip_def VideoFileClip_def open_handle_def and_then_def
          split: if_splits)
  next
    case False
    let ?opened = "if ov_media_type overlay = ''image''
        then Image_clip (next_handle w) (ov_media_path overlay)
        else Video_file_clip (next_handle w) (ov_media_path overlay)"
    from False assms run s
    have "s' = (b\<lparr>loaded_clips := loaded_clips b @ [Loaded_clip (overlay_chain overlay ?opened)]\<rparr>,
                w\<lparr>next_handle := Suc (next_handle w), opened := opened w @ [next_handle w]\<rparr>)"
      by (auto simp: load_overlay_def ImageClip_def VideoFileClip_def open_handle_def and_then_def
          return_def lib_call_def register_def)
    moreover have "set (loaded_handles (Loaded_clip (overlay_chain overlay ?opened))) = {next_handle w}"
      by (simp add: clip_handles_overlay_chain)
    ultimately show ?thesis using open_and_register t s by simp
  qed
qed

lemma keeps_tracked_load_overlays:
  assumes "\<forall>i. \<not> raises lib (Overlay_transform i)"
  shows "keeps_tracked (load_overlays lib i overlays acc)"
proof (induction overlays arbitrary: i acc)
  case Nil
  show ?case by (simp add: keeps_tracked_return)
next
  case (Cons overlay overlays)
  from assms have "keeps_tracked (load_overlay lib i overlay)"
    by (simp add: keeps_tracked_load_overlay)
  then show ?case
    by (simp add: keeps_tracked_and_then keeps_tracked_try_except keeps_tracked_return Cons.IH)
qed

lemma keeps_tracked_apply_silence_cuts: "keeps_tracked (apply_silence_cuts lib c)"
  unfolding apply_silence_cuts_def Let_def
  by (intro keeps_tracked_and_then keeps_tracked_get_builder)
     (simp add: keeps_tracked_return keeps_tracked_lib_call)

lemma keeps_tracked_apply_zoom_effect: "keeps_tracked (apply_zoom_effect lib c)"
  unfolding apply_zoom_effect_def
  by (intro keeps_tracked_and_then keeps_tracked_get_builder)
     (simp add: keeps_tracked_return keeps_tracked_lib_call)

lemma keeps_tracked_apply_media_overlays:
  assumes "\<forall>i. \<not> raises lib (Overlay_transform i)"
  shows "keeps_tracked (apply_media_overlays lib c)"
  unfolding apply_media_overlays_def
  by (intro keeps_tracked_and_then keeps_tracked_get_builder)
     (simp add: keeps_tracked_return keeps_tracked_lib_call keeps_tracked_and_then
        keeps_tracked_load_overlays [OF assms])

lemma keeps_tracked_fit_music: "keeps_tracked (fit_music lib music c)"
  by (simp add: fit_music_def Let_def keeps_tracked_raise keeps_tracked_lib_call)

lemma keeps_tracked_music_body:
  "keeps_tracked (and_then (AudioFileClip lib Music_open p) (\<lambda>music.
      and_then (register (Loaded_audio music)) (\<lambda>_.
      and_then (fit_music lib music c) (\<lambda>fitted.
      return (mix_music lib self fitted c)))))"
  unfolding keeps_tracked_def
proof (intro allI impI)
  fix s r s'
  assume t: "tracked s"
    and run: "and_then (AudioFileClip lib Music_open p) (\<lambda>music.
      and_then (register (Loaded_audio music)) (\<lambda>_.
      and_then (fit_music lib music c) (\<lambda>fitted.
      return (mix_music lib self fitted c)))) s = (r, s')"
  obtain b w where s: "s = (b, w)" by (cases s)
  show "tracked s'"
  proof (cases "raises lib Music_open")
    case True
    with run s t show ?thesis
      by (auto simp: AudioFileClip_def open_handle_def and_then_def)
  next
    case False
    let ?s1 = "(b\<lparr>loaded_clips := loaded_clips b @ [Loaded_audio (Audio_file_clip (next_handle w) p)]\<rparr>,
                w\<lparr>next_handle := Suc (next_handle w), opened := opened w @ [next_handle w]\<rparr>)"
    from False run s have rest: "and_then (fit_music lib (Audio_file_clip (next_handle w) p) c)
        (\<lambda>fitted. return (mix_music lib self fitted c)) ?s1 = (r, s')"
      by (simp add: AudioFileClip_def open_handle_def and_then_def return_def register_def)
    have t1: "tracked ?s1" using open_and_register t s by simp
    have "keeps_tracked (and_then (fit_music lib (Audio_file_clip (next_handle w) p) c)
        (\<lambda>fitted. return (mix_music lib self fitted c)))"
      by (simp add: keeps_tracked_and_then keeps_tracked_fit_music keeps_tracked_return)
    from keeps_trackedD [OF this t1 rest] show ?thesis .
  qed
qed

lemma keeps_tracked_apply_background_music: "keeps_tracked (apply_background_music lib c)"
  unfolding apply_background_music_def
  by (intro keeps_tracked_and_then keeps_tracked_get_builder)
     (simp add: keeps_tracked_return keeps_tracked_try_except keeps_tracked_music_body
        split: option.split)

lemma keeps_tracked_pipeline:
  assumes "\<forall>(name, f) \<in> set steps. \<forall>c. keeps_tracked (f c)"
  shows "keeps_tracked (pipeline steps self c)"
  using assms
proof (induction steps arbitrary: c)
  case Nil
  show ?case by (simp add: keeps_tracked_return)
next
  case (Cons step rest)
  obtain name f where step: "step = (name, f)" by (cases step)
  with Cons show ?case
    by (simp add: keeps_tracked_and_then keeps_tracked_run_step)
qed

lemma keeps_tracked_render_body:
  assumes "\<forall>i. \<not> raises lib (Overlay_transform i)"
  shows "keeps_tracked (render_body lib output_path)"
  unfolding keeps_tracked_def
proof (intro allI impI)
  fix s r s'
  assume t: "tracked s" and run: "render_body lib output_path s = (r, s')"
  obtain self w where s: "s = (self, w)" by (cases s)
  have steps: "\<forall>(name, f) \<in> set (step_functions lib self). \<forall>c. keeps_tracked (f c)"
    by (simp add: step_functions_def keeps_tracked_apply_silence_cuts keeps_tracked_apply_zoom_effect
        keeps_tracked_apply_media_overlays [OF assms] keeps_tracked_apply_background_music
        keeps_tracked_lib_call)
  have encode: "keeps_tracked (write_videofile lib clip output_path)" for clip
    by (auto simp: keeps_tracked_def write_videofile_def tracked_def split: if_splits)
  show "tracked s'"
  proof (cases "raises lib Open_base")
    case True
    with run s t show ?thesis
      by (auto simp: render_body_pipeline VideoFileClip_def open_handle_def and_then_def get_builder_def)
  next
    case False
    let ?base = "Video_file_clip (next_handle w) (input_video_path self)"
    let ?s2 = "(self\<lparr>base_clip := Some ?base, loaded_clips := loaded_clips self @ [Loaded_clip ?base]\<rparr>,
                w\<lparr>next_handle := Suc (next_handle w), opened := opened w @ [next_handle w]\<rparr>)"
    from False run s have rest:
      "and_then (pipeline (step_functions lib self) self ?base) (\<lambda>clip.
         and_then (write_videofile lib clip output_path) (\<lambda>_. return output_path)) ?s2 = (r, s')"
      by (simp add: render_body_pipeline VideoFileClip_def open_handle_def and_then_def
          get_builder_def return_def)
    from t s have t2: "tracked ?s2" by (auto simp: tracked_def)
    have "keeps_tracked (and_then (pipeline (step_functions lib self) self ?base) (\<lambda>clip.
         and_then (write_videofile lib clip output_path) (\<lambda>_. return output_path)))"
      by (intro keeps_tracked_and_then keeps_tracked_pipeline steps encode keeps_tracked_return)
    from keeps_trackedD [OF this t2 rest] show ?thesis .
  qed
qed

lemma render_closes_tracked:
  assumes "\<forall>i. \<not> raises lib (Overlay_transform i)" and "tracked (self, w)"
    and "render lib output_path (self, w) = (r, self', w')"
  shows "leaked w' = []"
proof -
  obtain rb bb wb where body: "render_body lib output_path (self, w) = (rb, bb, wb)"
    by (cases "render_body lib output_path (self, w)") auto
  from keeps_trackedD [OF keeps_tracked_render_body [OF assms(1)] assms(2) body]
  have "tracked (bb, wb)" .
  moreover from assms(3) body
  have "w' = wb\<lparr>closed := closed wb @ concat (map loaded_handles (loaded_clips bb))\<rparr>"
    by (auto simp: render_def try_finally_def cleanup_def)
  ultimately show ?thesis by (auto simp: leaked_def tracked_def filter_empty_conv)
qed

subsection \<open>Scenarios\<close>

text \<open>
  A library in which no call raises, every file exists, every video clip lasts 60 s and
  has an audio track, and every audio clip lasts 25 s; and the same library with the
  transformation of the first overlay raising, or with the compositing raising.
\<close>

definition quiet_library :: library where
  "quiet_library =
     \<lparr>raises = (\<lambda>c. False), path_exists = (\<lambda>p. True), clip_duration = (\<lambda>c. 60),
      audio_duration = (\<lambda>a. 25), has_audio = (\<lambda>c. True)\<rparr>"

definition overlay_fault_library :: library where
  "overlay_fault_library = quiet_library\<lparr>raises := (\<lambda>c. c = Overlay_transform 0)\<rparr>"

definition composite_fault_library :: library where
  "composite_fault_library = quiet_library\<lparr>raises := (\<lambda>c. c = Overlay_composite)\<rparr>"

definition broll_overlay :: MediaOverlay where
  "broll_overlay =
     \<lparr>ov_start_time = 5, ov_duration = 4, ov_media_path = ''broll.mp4'', ov_media_type = ''video'',
      ov_transition = ''fade'', ov_position = (0, 0), ov_size = None\<rparr>"




subsection \<open>Claim about media handles\<close>

text \<open>
  Claim C1 says that every clip handle opened by the builder is closed when \<^verbatim>\<open>render\<close>
  returns or raises. \<^verbatim>\<open>_cleanup\<close> closes the clips in \<^verbatim>\<open>_loaded_clips\<close>. The base clip,
  the intro and outro clips and the music clip are registered there as soon as they are
  opened; an overlay clip is registered only after all its transformations. When a
  transformation of an overlay raises (render step 3), the \<^verbatim>\<open>except\<close> of the overlay
  loop logs the error and the file opened for that overlay is never registered: with one
  video overlay whose transformation raises, \<^verbatim>\<open>render\<close> returns the output path, the
  handles 0 (base clip) and 1 (overlay) have been opened and only handle 0 has been closed.
  Without the exception, and with an exception in the compositing that leaves \<^verbatim>\<open>render\<close>,
  no handle stays open; lemma \<open>render_closes_tracked\<close> above shows that this is the
  only way to leak: when no overlay transformation raises, \<^verbatim>\<open>render\<close> leaves no handle
  open, whether it returns or raises.
\<close>

theorem render_leaks_unregistered_overlay:
  "fst (render overlay_fault_library ''out.mp4''
          (add_media_overlays [broll_overlay] (init ''in.mp4''), fresh_world)) = Inr ''out.mp4''
   \<and> opened (snd (snd (render overlay_fault_library ''out.mp4''
          (add_media_overlays [broll_overlay] (init ''in.mp4''), fresh_world)))) = [0, 1]
   \<and> closed (snd (snd (render overlay_fault_library ''out.mp4''
          (add_media_overlays [broll_overlay] (init ''in.mp4''), fresh_world)))) = [0]
   \<and> leaked (snd (snd (render overlay_fault_library ''out.mp4''
          (add_media_overlays [broll_overlay] (init ''in.mp4''), fresh_world)))) = [1]
   \<and> leaked (snd (snd (render quiet_library ''out.mp4''
          (add_media_overlays [broll_overlay] (init ''in.mp4''), fresh_world)))) = []
   \<and> fst (render composite_fault_library ''out.mp4''
          (add_media_overlays [broll_overlay] (init ''in.mp4''), fresh_world)) = Inl (Raised Overlay_composite)
   \<and> leaked (snd (snd (render composite_fault_library ''out.mp4''
          (add_media_overlays [broll_overlay] (init ''in.mp4''), fresh_world)))) = []"
  by code_simp



section \<open>Stage orchestration\<close>

text \<open>
  Source: \<^verbatim>\<open>process_video\<close> in \<^verbatim>\<open>src/core/video_processing.py\<close>.

  The stages are calls of functions that run external tools (Whisper, GPT, ffmpeg, stock
  footage and image services). The model keeps the control flow of \<^verbatim>\<open>process_video\<close>:
  which stages it calls, in which order, on which video artifact, depending on the skip
  flags, on the state of the transcript file and on what the stages report. What a stage
  reports is a parameter of the model (the record \<open>outcomes\<close>); a stage is taken to
  return, as the stage functions catch their own exceptions.
\<close>

datatype stage =
    Audio_enhancement
  | Silence_removal
  | Transcription
  | Bad_take_removal
  | Re_transcription
  | GPT_correction
  | AI_topic_detection
  | AI_highlights
  | AI_multimedia
  | Broll_insertion
  | Image_generation
  | Enhanced_auto_zoom
  | Topic_title_card
  | Flash_logo
  | Outro_addition
  | Background_music
  | Sound_effects
  | Subtitle_burning
  | Add_frame

text \<open>
  The transcript file \<^verbatim>\<open>TEMP_PROCESSING_DIR / f"{stem}.srt"\<close>: missing, present and
  empty, or present with text. The directory is not cleaned between runs (the
  \<^verbatim>\<open>rmtree\<close> in the \<^verbatim>\<open>finally\<close> block is commented out), so a file of an earlier
  run on the same video can be there before the transcription stage.
\<close>

datatype file_state = Missing | Empty_file | Has_text

text \<open>
  \<^verbatim>\<open>transcribe_video_whisper\<close> returns \<^verbatim>\<open>True\<close> after writing the file, or
  \<^verbatim>\<open>False\<close> after an exception: before the file is opened for writing (the file is as
  it was), or while the segments are written (the file is there, as far as written).
\<close>

datatype whisper_outcome =
    Transcribed file_state
  | Failed_before_open
  | Failed_while_writing file_state

record options =
  skip_audio :: bool
  skip_silence :: bool
  skip_transcription :: bool
  skip_gpt_correct :: bool
  skip_subtitle_burn :: bool
  skip_outro :: bool
  skip_broll :: bool
  skip_ai_highlights :: bool
  skip_topic_card :: bool
  skip_frame :: bool
  skip_flash_logo :: bool
  skip_background_music :: bool
  skip_sound_effects :: bool
  use_ai_word_highlighting :: bool
  skip_image_generation :: bool
  skip_bad_take_removal :: bool
  skip_enhanced_auto_zoom :: bool

text \<open>The default values of the parameters of \<^verbatim>\<open>process_video\<close>.\<close>

definition default_options :: options where
  "default_options =
     \<lparr>skip_audio = False, skip_silence = False, skip_transcription = False,
      skip_gpt_correct = False, skip_subtitle_burn = False, skip_outro = False,
      skip_broll = False, skip_ai_highlights = False, skip_topic_card = False,
      skip_frame = False, skip_flash_logo = False, skip_background_music = False,
      skip_sound_effects = False, use_ai_word_highlighting = True,
      skip_image_generation = False, skip_bad_take_removal = False,
      skip_enhanced_auto_zoom = False\<rparr>"

record outcomes =
  transcript_before :: file_state
  whisper :: whisper_outcome
  whisper_again :: whisper_outcome
  bad_takes_detected :: bool
  succeeds :: "stage \<Rightarrow> bool"

text \<open>
  The state of a run: the parameters (Python rebinds the skip flags), whether the local
  variable \<^verbatim>\<open>transcript_text\<close> is bound, the stage that produced
  \<^verbatim>\<open>current_video_path\<close> (\<open>None\<close> for the input file), the transcript file, and the
  stages called so far with the artifact each was called on.
\<close>

record run =
  opts :: options
  transcript_text_bound :: bool
  current_video :: "stage option"
  transcript_file :: file_state
  called :: "(stage \<times> stage option) list"

datatype error = UnboundLocalError

definition file_exists :: "file_state \<Rightarrow> bool" where
  "file_exists f = (f \<noteq> Missing)"

definition file_nonempty :: "file_state \<Rightarrow> bool" where
  "file_nonempty f = (f = Has_text)"

text \<open>Calling a stage on the current artifact.\<close>

definition call_stage :: "stage \<Rightarrow> run \<Rightarrow> run" where
  "call_stage st r = r\<lparr>called := called r @ [(st, current_video r)]\<rparr>"

text \<open>
  The common shape of a video stage:
  \<^verbatim>\<open>
    if not skip_x:
        if stage_x(current_video_path, out_path):
            current_video_path = out_path
        else:
            logger.warning("... failed, continuing ...")
  \<close>
\<close>

definition video_stage :: "outcomes \<Rightarrow> (options \<Rightarrow> bool) \<Rightarrow> stage \<Rightarrow> run \<Rightarrow> run" where
  "video_stage env skip st r =
     (if \<not> skip (opts r) then
        (let r = call_stage st r
         in if succeeds env st then r\<lparr>current_video := Some st\<rparr> else r)
      else r)"

text \<open>The file after a call of \<^verbatim>\<open>transcribe_video_whisper\<close>.\<close>

fun written_by :: "whisper_outcome \<Rightarrow> file_state \<Rightarrow> file_state" where
  "written_by (Transcribed f) previous = f"
| "written_by Failed_before_open previous = previous"
| "written_by (Failed_while_writing f) previous = f"

fun whisper_ok :: "whisper_outcome \<Rightarrow> bool" where
  "whisper_ok (Transcribed f) = True"
| "whisper_ok Failed_before_open = False"
| "whisper_ok (Failed_while_writing f) = False"

text \<open>
  Step 3:
  \<^verbatim>\<open>
    if not skip_transcription:
        if not transcribe_video_whisper(current_video_path, transcript_path, ...):
            logger.error("Transcription failed. Subtitle-dependent steps will be skipped.")
            skip_gpt_correct = skip_subtitle_burn = skip_ai_highlights = skip_broll = True
    else:
        transcript_path.touch()
  \<close>
\<close>

definition step_transcription :: "outcomes \<Rightarrow> run \<Rightarrow> run" where
  "step_transcription env r =
     (if \<not> skip_transcription (opts r) then
        (let r = call_stage Transcription r;
             r = r\<lparr>transcript_file := written_by (whisper env) (transcript_file r)\<rparr>
         in if \<not> whisper_ok (whisper env)
            then r\<lparr>opts := (opts r)\<lparr>skip_gpt_correct := True, skip_subtitle_burn := True,
                                      skip_ai_highlights := True, skip_broll := True\<rparr>\<rparr>
            else r)
      else r\<lparr>transcript_file := (if transcript_file r = Missing then Empty_file else transcript_file r)\<rparr>)"

text \<open>Step 3.5, bad take removal, with the re-transcription of the edited video.\<close>

definition step_bad_takes :: "outcomes \<Rightarrow> run \<Rightarrow> run" where
  "step_bad_takes env r =
     (if \<not> skip_bad_take_removal (opts r) \<and> file_exists (transcript_file r)
         \<and> file_nonempty (transcript_file r) then
        (let r = call_stage Bad_take_removal r
         in if bad_takes_detected env then
              (if succeeds env Bad_take_removal then
                 (let r = r\<lparr>current_video := Some Bad_take_removal\<rparr>;
                      r = call_stage Re_transcription r
                  in r\<lparr>transcript_file := written_by (whisper_again env) (transcript_file r)\<rparr>)
               else r)
            else r)
      else r)"

text \<open>Step 4: \<^verbatim>\<open>if not skip_gpt_correct and transcript_path.exists()\<close>.\<close>

definition step_gpt_correction :: "run \<Rightarrow> run" where
  "step_gpt_correction r =
     (if \<not> skip_gpt_correct (opts r) \<and> file_exists (transcript_file r)
      then call_stage GPT_correction r else r)"

text \<open>
  Steps 5 and 6 read the transcript into \<^verbatim>\<open>transcript_text\<close>; step 5 also calls the
  topic detection.
\<close>

definition step_topic_detection :: "run \<Rightarrow> run" where
  "step_topic_detection r =
     (if file_exists (transcript_file r) \<and> file_nonempty (transcript_file r)
      then call_stage AI_topic_detection (r\<lparr>transcript_text_bound := True\<rparr>) else r)"

definition step_multimedia_analysis :: "run \<Rightarrow> run" where
  "step_multimedia_analysis r =
     (if (\<not> skip_broll (opts r) \<or> \<not> skip_image_generation (opts r)) \<and> file_exists (transcript_file r)
      then r\<lparr>transcript_text_bound := True\<rparr> else r)"

text \<open>
  Step 7:
  \<^verbatim>\<open>
    if (not skip_ai_highlights or use_ai_word_highlighting) and transcript_path.exists():
        highlight_data = find_key_moments_with_gpt(transcript_text, video_topic, ...)
  \<close>
  Reading \<^verbatim>\<open>transcript_text\<close> before steps 5 or 6 have bound it raises
  \<^verbatim>\<open>UnboundLocalError\<close>, which leaves \<^verbatim>\<open>process_video\<close>.
\<close>

definition step_ai_highlights :: "run \<Rightarrow> error + run" where
  "step_ai_highlights r =
     (if (\<not> skip_ai_highlights (opts r) \<or> use_ai_word_highlighting (opts r))
         \<and> file_exists (transcript_file r)
      then (if transcript_text_bound r then Inr (call_stage AI_highlights r)
            else Inl UnboundLocalError)
      else Inr r)"

text \<open>
  Step 8, under the same condition as step 6, calls
  \<^verbatim>\<open>create_comprehensive_multimedia_video\<close> with the current flags; inside, B-roll is
  searched and inserted unless \<^verbatim>\<open>skip_broll\<close>, and images are generated unless
  \<^verbatim>\<open>skip_image_generation\<close>. An exception of the call is caught and logged.
\<close>

definition step_multimedia :: "outcomes \<Rightarrow> run \<Rightarrow> run" where
  "step_multimedia env r =
     (if (\<not> skip_broll (opts r) \<or> \<not> skip_image_generation (opts r)) \<and> file_exists (transcript_file r)
      then
        (let r = call_stage AI_multimedia r;
             r = (if \<not> skip_broll (opts r) then call_stage Broll_insertion r else r);
             r = (if \<not> skip_image_generation (opts r) then call_stage Image_generation r else r)
         in if succeeds env AI_multimedia then r\<lparr>current_video := Some AI_multimedia\<rparr> else r)
      else r)"

text \<open>Step 15: \<^verbatim>\<open>if not skip_subtitle_burn and transcript_path.exists()\<close>.\<close>

definition step_subtitle_burn :: "outcomes \<Rightarrow> run \<Rightarrow> run" where
  "step_subtitle_burn env r =
     (if \<not> skip_subtitle_burn (opts r) \<and> file_exists (transcript_file r) then
        (let r = call_stage Subtitle_burning r
         in if succeeds env Subtitle_burning then r\<lparr>current_video := Some Subtitle_burning\<rparr> else r)
      else r)"

text \<open>The stages of \<^verbatim>\<open>process_video\<close> up to the multimedia analysis, and from step 8 on.\<close>

definition first_phases :: "outcomes \<Rightarrow> run \<Rightarrow> run" where
  "first_phases env r =
     (let r = video_stage env skip_audio Audio_enhancement r;
          r = video_stage env skip_silence Silence_removal r;
          r = step_transcription env r;
          r = step_bad_takes env r;
          r = step_gpt_correction r;
          r = step_topic_detection r
      in step_multimedia_analysis r)"

definition later_phases :: "outcomes \<Rightarrow> run \<Rightarrow> run" where
  "later_phases env r =
     (let r = step_multimedia env r;
          r = video_stage env skip_enhanced_auto_zoom Enhanced_auto_zoom r;
          r = video_stage env skip_topic_card Topic_title_card r;
          r = video_stage env skip_flash_logo Flash_logo r;
          r = video_stage env skip_outro Outro_addition r;
          r = video_stage env skip_background_music Background_music r;
          r = video_stage env skip_sound_effects Sound_effects r;
          r = step_subtitle_burn env r
      in video_stage env skip_frame Add_frame r)"

definition start_run :: "options \<Rightarrow> outcomes \<Rightarrow> run" where
  "start_run options env =
     \<lparr>opts = options, transcript_text_bound = False, current_video = None,
      transcript_file = transcript_before env, called = []\<rparr>"

definition process_video :: "options \<Rightarrow> outcomes \<Rightarrow> error + run" where
  "process_video options env =
     (case step_ai_highlights (first_phases env (start_run options env)) of
        Inl e \<Rightarrow> Inl e
      | Inr r \<Rightarrow> Inr (later_phases env r))"

definition stages_called :: "error + run \<Rightarrow> stage list" where
  "stages_called res = (case res of Inl e \<Rightarrow> [] | Inr r \<Rightarrow> map fst (called r))"

subsection \<open>What a failed transcription does switch off\<close>

text \<open>
  Once the transcription has failed, the flags \<^verbatim>\<open>skip_gpt_correct\<close>,
  \<^verbatim>\<open>skip_subtitle_burn\<close> and \<^verbatim>\<open>skip_broll\<close> stay set, and the stages they guard are
  not called.
\<close>

definition switched_off :: "run \<Rightarrow> bool" where
  "switched_off r =
     (skip_gpt_correct (opts r) \<and> skip_subtitle_burn (opts r) \<and> skip_broll (opts r)
      \<and> GPT_correction \<notin> fst ` set (called r) \<and> Subtitle_burning \<notin> fst ` set (called r)
      \<and> Broll_insertion \<notin> fst ` set (called r))"

lemma switched_off_video_stage:
  "switched_off r \<Longrightarrow> st \<notin> {GPT_correction, Subtitle_burning, Broll_insertion} \<Longrightarrow>
     switched_off (video_stage env skip st r)"
  by (auto simp: switched_off_def video_stage_def call_stage_def Let_def)

lemma switched_off_transcription:
  assumes "\<not> skip_transcription (opts r)" and "\<not> whisper_ok (whisper env)"
    and "GPT_correction \<notin> fst ` set (called r)" and "Subtitle_burning \<notin> fst ` set (called r)"
    and "Broll_insertion \<notin> fst ` set (called r)"
  shows "switched_off (step_transcription env r)"
  using assms by (auto simp: switched_off_def step_transcription_def call_stage_def Let_def)

lemma switched_off_first_phases:
  assumes "\<not> skip_transcription options" and "\<not> whisper_ok (whisper env)"
  shows "switched_off (first_phases env (start_run options env))"
proof -
  let ?r2 = "video_stage env skip_silence Silence_removal
               (video_stage env skip_audio Audio_enhancement (start_run options env))"
  have "opts ?r2 = options" and "fst ` set (called ?r2) \<subseteq> {Audio_enhancement, Silence_removal}"
    by (auto simp: video_stage_def call_stage_def start_run_def Let_def)
  with assms have "switched_off (step_transcription env ?r2)"
    by (intro switched_off_transcription) auto
  moreover have "switched_off (step_bad_takes env r)" if "switched_off r" for r
    using that by (auto simp: switched_off_def step_bad_takes_def call_stage_def Let_def)
  moreover have "switched_off (step_gpt_correction r)" if "switched_off r" for r
    using that by (auto simp: switched_off_def step_gpt_correction_def)
  moreover have "switched_off (step_topic_detection r)" if "switched_off r" for r
    using that by (auto simp: switched_off_def step_topic_detection_def call_stage_def)
  moreover have "switched_off (step_multimedia_analysis r)" if "switched_off r" for r
    using that by (auto simp: switched_off_def step_multimedia_analysis_def)
  ultimately show ?thesis by (simp add: first_phases_def Let_def)
qed

lemma switched_off_later_phases:
  assumes "switched_off r"
  shows "switched_off (later_phases env r)"
proof -
  have "switched_off (step_multimedia env r)" if "switched_off r" for r
    using that by (auto simp: switched_off_def step_multimedia_def call_stage_def Let_def)
  moreover have "switched_off (step_subtitle_burn env r)" if "switched_off r" for r
    using that by (auto simp: switched_off_def step_subtitle_burn_def)
  ultimately show ?thesis
    using assms by (simp add: later_phases_def Let_def switched_off_video_stage)
qed

lemma failed_transcription_skips_three:
  assumes "\<not> skip_transcription options" and "\<not> whisper_ok (whisper env)"
    and "process_video options env = Inr r"
  shows "GPT_correction \<notin> fst ` set (called r) \<and> Subtitle_burning \<notin> fst ` set (called r)
     \<and> Broll_insertion \<notin> fst ` set (called r)"
proof -
  from assms(3) obtain r' where hl: "step_ai_highlights (first_phases env (start_run options env)) = Inr r'"
    and r: "r = later_phases env r'"
    by (auto simp: process_video_def split: sum.splits)
  from switched_off_first_phases [OF assms(1,2)] hl have "switched_off r'"
    by (auto simp: step_ai_highlights_def switched_off_def call_stage_def split: if_splits)
  from switched_off_later_phases [OF this] r show ?thesis
    by (simp add: switched_off_def)
qed

subsection \<open>Claim about a failed transcription\<close>

text \<open>
  Claim C7 says that after a failed transcription the stages that need a transcript (GPT
  correction, subtitle burning, AI highlights, B-roll insertion) are all skipped and the
  rest of the pipeline continues. The code sets the four skip flags, but the guard of the
  AI highlights stage is \<^verbatim>\<open>(not skip_ai_highlights or use_ai_word_highlighting) and
  transcript_path.exists()\<close>, and \<^verbatim>\<open>use_ai_word_highlighting\<close> is \<^verbatim>\<open>True\<close> by default.
  With the default parameters:

  \<^item> when a transcript of an earlier run is still in the working directory and Whisper
    fails before writing, the AI highlights stage is called (on the old transcript);
  \<^item> when Whisper fails while writing and leaves an empty file, the AI highlights stage is
    called on the empty transcript;
  \<^item> in that case with \<^verbatim>\<open>skip_image_generation\<close> set as well, the stage reads the unbound
    \<^verbatim>\<open>transcript_text\<close> and \<^verbatim>\<open>process_video\<close> ends with \<^verbatim>\<open>UnboundLocalError\<close>;
  \<^item> when no transcript file is left, the four stages are skipped, as the claim says.
\<close>

theorem transcription_failure_calls_ai_highlights:
  "stages_called (process_video default_options
      \<lparr>transcript_before = Has_text, whisper = Failed_before_open,
       whisper_again = Failed_before_open, bad_takes_detected = False, succeeds = (\<lambda>st. True)\<rparr>)
     = [Audio_enhancement, Silence_removal, Transcription, Bad_take_removal, AI_topic_detection,
        AI_highlights, AI_multimedia, Image_generation, Enhanced_auto_zoom, Topic_title_card,
        Flash_logo, Outro_addition, Background_music, Sound_effects, Add_frame]
   \<and> stages_called (process_video default_options
      \<lparr>transcript_before = Missing, whisper = Failed_while_writing Empty_file,
       whisper_again = Failed_before_open, bad_takes_detected = False, succeeds = (\<lambda>st. True)\<rparr>)
     = [Audio_enhancement, Silence_removal, Transcription, AI_highlights, AI_multimedia,
        Image_generation, Enhanced_auto_zoom, Topic_title_card, Flash_logo, Outro_addition,
        Background_music, Sound_effects, Add_frame]
   \<and> process_video (default_options\<lparr>skip_image_generation := True\<rparr>)
      \<lparr>transcript_before = Missing, whisper = Failed_while_writing Empty_file,
       whisper_again = Failed_before_open, bad_takes_detected = False, succeeds = (\<lambda>st. True)\<rparr>
     = Inl UnboundLocalError
   \<and> stages_called (process_video default_options
      \<lparr>transcript_before = Missing, whisper = Failed_before_open,
       whisper_again = Failed_before_open, bad_takes_detected = False, succeeds = (\<lambda>st. True)\<rparr>)
     = [Audio_enhancement, Silence_removal, Transcription, Enhanced_auto_zoom, Topic_title_card,
        Flash_logo, Outro_addition, Background_music, Sound_effects, Add_frame]"
  by code_simp

end
